theory Spec2Isabelle
  imports Main "HOL-Library.Log_Nat"
begin

section \<open>JavaScript numbers\<close>

text \<open>
  Every number of the page (\<^verbatim>\<open>window.scrollY\<close>, the targets, \<^verbatim>\<open>current\<close>,
  \<^verbatim>\<open>increment\<close>) is an IEEE 754 binary64 value. A finite binary64 value is a rational
  number, so a number is modelled as a \<^typ>\<open>rat\<close>, and an arithmetic operation is the
  exact rational operation followed by the rounding \<open>fl\<close> to the nearest binary64 value,
  ties to the even significand. Comparisons and \<^verbatim>\<open>Math.floor\<close> are exact. Overflow to
  Infinity and NaN are left out: the values of this page stay below 153.
\<close>

type_synonym number = rat

text \<open>\<open>ilog2 x\<close> is the binary exponent of a positive \<open>x\<close>: the \<open>k\<close> with
  \<open>2 powi k \<le> x < 2 powi (k + 1)\<close>.\<close>

definition ilog2 :: "rat \<Rightarrow> int" where
  "ilog2 x = (if 1 \<le> x then bitlen \<lfloor>x\<rfloor> - 1 else - bitlen (\<lceil>1 / x\<rceil> - 1))"

definition round_ties_even :: "rat \<Rightarrow> int" where
  "round_ties_even x =
     (let f = \<lfloor>x\<rfloor>; d = x - of_int f
      in if d < 1 / 2 then f
         else if 1 / 2 < d then f + 1
         else if even f then f else f + 1)"

text \<open>Rounding to binary64: 53 significant bits, the least exponent of a unit in the last
  place being \<open>- 1074\<close> (subnormal numbers).\<close>

definition fl :: "rat \<Rightarrow> number" where
  "fl x =
     (if x = 0 then 0
      else let e = max (ilog2 \<bar>x\<bar> - 52) (- 1074)
           in of_int (round_ties_even (x / 2 powi e)) * 2 powi e)"

definition js_add :: "number \<Rightarrow> number \<Rightarrow> number" where
  "js_add a b = fl (a + b)"

definition js_div :: "number \<Rightarrow> number \<Rightarrow> number" where
  "js_div a b = fl (a / b)"

definition Math_floor :: "number \<Rightarrow> int" where
  "Math_floor x = \<lfloor>x\<rfloor>"


section \<open>The state of the page component\<close>

text \<open>\<^verbatim>\<open>animatedStats\<close>: an object with the four keys of \<^verbatim>\<open>targets\<close>.\<close>

datatype stat_key = Projects | Clients | Years | Hours

record stats =
  projects :: int
  clients :: int
  years :: int
  hours :: int

fun getStat :: "stat_key \<Rightarrow> stats \<Rightarrow> int" where
  "getStat Projects st = projects st"
| "getStat Clients st = clients st"
| "getStat Years st = years st"
| "getStat Hours st = hours st"

text \<open>The spread update \<^verbatim>\<open>{...prev, [key]: v}\<close>.\<close>

fun setStat :: "stat_key \<Rightarrow> int \<Rightarrow> stats \<Rightarrow> stats" where
  "setStat Projects v st = st\<lparr>projects := v\<rparr>"
| "setStat Clients v st = st\<lparr>clients := v\<rparr>"
| "setStat Years v st = st\<lparr>years := v\<rparr>"
| "setStat Hours v st = st\<lparr>hours := v\<rparr>"

text \<open>
  An interval timer made by \<^verbatim>\<open>animateStats\<close>: the variables its callback closes over
  (\<^verbatim>\<open>key\<close>, \<^verbatim>\<open>target\<close>, \<^verbatim>\<open>increment\<close>, \<^verbatim>\<open>current\<close>) and whether
  \<^verbatim>\<open>clearInterval\<close> has been called on it.
\<close>

record timer =
  key :: stat_key
  target :: number
  increment :: number
  current :: number
  cleared :: bool

text \<open>
  The component state: the theme of \<^verbatim>\<open>useTheme\<close> (the handlers run in the browser
  under the provider of \<^verbatim>\<open>layout.tsx\<close>, where it is a string), the three
  \<^verbatim>\<open>useState\<close> cells, the interval timers created so far (a timer's id is its
  position), the elements the intersection observer observes, and the elements that
  \<^verbatim>\<open>scrollIntoView\<close> was called on, in order.

  A handler is a closure of the render that created it: the constants \<^verbatim>\<open>theme\<close> and
  \<^verbatim>\<open>isMobileMenuOpen\<close> that it reads (lines 41 and 44) are those of the latest
  render, not the state at the time of the call. \<open>renderedTheme\<close> and
  \<open>renderedMenuOpen\<close> hold them.
\<close>

record page =
  theme :: string
  renderedTheme :: string
  isMobileMenuOpen :: bool
  renderedMenuOpen :: bool
  showWhatsApp :: bool
  animatedStats :: stats
  timers :: "timer list"
  observed :: "string list"
  scrolledTo :: "string list"

text \<open>A document is given by the ids of its elements; an element is named by its id.\<close>

type_synonym document = "string list"

definition getElementById :: "document \<Rightarrow> string \<Rightarrow> string option" where
  "getElementById doc i = (if i \<in> set doc then Some i else None)"

text \<open>
  The ids that the component renders, in document order, while its dialogs are closed (the
  id "business-type" is inside the content of a dialog).
\<close>

definition pageDocument :: document where
  "pageDocument = [''hero'', ''stats-section'', ''services'', ''about'', ''contact'',
     ''full-name'', ''email'', ''message'']"

datatype error = TypeError


section \<open>The handlers\<close>

text \<open>
  The functions of \<^verbatim>\<open>src/app/page.tsx\<close>, in state-passing form. \<^verbatim>\<open>toggleDarkMode\<close>
  (lines 61 to 63) compares the theme of its render with the string "dark" and passes
  \<^verbatim>\<open>setTheme\<close> a value; the menu button (line 196) passes the negation of the
  \<^verbatim>\<open>isMobileMenuOpen\<close> of its render; the scroll listener (lines 70 to 72) stores
  \<^verbatim>\<open>window.scrollY > 300\<close>.
\<close>

definition toggleDarkMode :: "page \<Rightarrow> page" where
  "toggleDarkMode s = s\<lparr>theme := (if renderedTheme s = ''dark'' then ''light'' else ''dark'')\<rparr>"

definition toggleMobileMenu :: "page \<Rightarrow> page" where
  "toggleMobileMenu s = s\<lparr>isMobileMenuOpen := \<not> renderedMenuOpen s\<rparr>"

text \<open>A render of the component: the handlers are created anew and close over the state.\<close>

definition render :: "page \<Rightarrow> page" where
  "render s = s\<lparr>renderedTheme := theme s, renderedMenuOpen := isMobileMenuOpen s\<rparr>"

text \<open>The icon on the two theme buttons (lines 181 and 192), as the latest render drew it.\<close>

datatype icon = Sun | Moon

definition themeIcon :: "page \<Rightarrow> icon" where
  "themeIcon s = (if renderedTheme s = ''dark'' then Sun else Moon)"

definition handleScroll :: "number \<Rightarrow> page \<Rightarrow> page" where
  "handleScroll scrollY s = s\<lparr>showWhatsApp := (300 < scrollY)\<rparr>"

text \<open>
  \<^verbatim>\<open>animateStats\<close> (lines 105 to 127). The delay \<^verbatim>\<open>duration / steps\<close> of the
  timers does not enter the values they compute.
\<close>

fun targets :: "stat_key \<Rightarrow> number" where
  "targets Projects = 150"
| "targets Clients = 99"
| "targets Years = 5"
| "targets Hours = 24"

text \<open>\<^verbatim>\<open>Object.keys(targets)\<close>, in insertion order.\<close>

definition keys :: "stat_key list" where
  "keys = [Projects, Clients, Years, Hours]"

definition steps :: number where
  "steps = 60"

text \<open>The closure of one pass of the \<^verbatim>\<open>forEach\<close> in \<^verbatim>\<open>animateStats\<close> (lines 111 to
  113), which \<^verbatim>\<open>setInterval\<close> registers as a new timer.\<close>

definition newTimer :: "stat_key \<Rightarrow> timer" where
  "newTimer k = \<lparr>key = k, target = targets k, increment = js_div (targets k) steps,
     current = 0, cleared = False\<rparr>"

definition setInterval :: "timer \<Rightarrow> page \<Rightarrow> page" where
  "setInterval t s = s\<lparr>timers := timers s @ [t]\<rparr>"

definition animateStats :: "page \<Rightarrow> page" where
  "animateStats s = fold (\<lambda>k. setInterval (newTimer k)) keys s"

text \<open>
  What the interval callback does to its own variables (lines 116 to 120): add the
  increment, and on reaching the target clamp and clear the timer.
\<close>

definition tick :: "timer \<Rightarrow> timer" where
  "tick t =
     (let c = js_add (current t) (increment t)
      in if target t \<le> c then t\<lparr>current := target t, cleared := True\<rparr>
         else t\<lparr>current := c\<rparr>)"

text \<open>The whole callback of timer \<open>i\<close>, with its \<^verbatim>\<open>setAnimatedStats\<close> (lines 121 to 124).\<close>

definition intervalCallback :: "nat \<Rightarrow> page \<Rightarrow> page" where
  "intervalCallback i s =
     (let t = tick (timers s ! i)
      in s\<lparr>timers := (timers s)[i := t],
            animatedStats := setStat (key t) (Math_floor (current t)) (animatedStats s)\<rparr>)"

text \<open>
  An \<^verbatim>\<open>IntersectionObserverEntry\<close>: the observed element and \<^verbatim>\<open>isIntersecting\<close>.
  The observer's callback (lines 83 to 89) calls \<^verbatim>\<open>animateStats\<close> for every entry that
  is intersecting.
\<close>

datatype entry = Entry (entryTarget: string) (isIntersecting: bool)

definition observerCallback :: "entry list \<Rightarrow> page \<Rightarrow> page" where
  "observerCallback entries s =
     fold (\<lambda>e s. if isIntersecting e then animateStats s else s) entries s"

text \<open>\<^verbatim>\<open>scrollToSection\<close> (lines 133 to 136).\<close>

definition scrollIntoView :: "string \<Rightarrow> page \<Rightarrow> error + page" where
  "scrollIntoView el s = Inr (s\<lparr>scrolledTo := scrolledTo s @ [el]\<rparr>)"

text \<open>The call \<^verbatim>\<open>obj?.m(...)\<close>: nothing happens when \<open>obj\<close> is null.\<close>

definition optionalCall :: "'a option \<Rightarrow> ('a \<Rightarrow> page \<Rightarrow> error + page) \<Rightarrow> page \<Rightarrow> error + page" where
  "optionalCall obj m s = (case obj of None \<Rightarrow> Inr s | Some el \<Rightarrow> m el s)"

definition scrollToSection :: "document \<Rightarrow> string \<Rightarrow> page \<Rightarrow> error + page" where
  "scrollToSection doc sectionId s =
     (case optionalCall (getElementById doc sectionId) scrollIntoView s of
        Inl e \<Rightarrow> Inl e
      | Inr s' \<Rightarrow> Inr (s'\<lparr>isMobileMenuOpen := False\<rparr>))"

definition observe :: "string \<Rightarrow> page \<Rightarrow> error + page" where
  "observe el s = Inr (s\<lparr>observed := observed s @ [el]\<rparr>)"

text \<open>The body of the effect that sets the observer up (lines 93 to 96): the element is
  observed only if it exists.\<close>

definition observerSetup :: "document \<Rightarrow> page \<Rightarrow> error + page" where
  "observerSetup doc s =
     (case getElementById doc ''stats-section'' of
        None \<Rightarrow> Inr s
      | Some statsSection \<Rightarrow> observe statsSection s)"

text \<open>
  The state of the first render (lines 41 to 55); the theme is the \<^verbatim>\<open>defaultTheme\<close>
  that \<^verbatim>\<open>src/app/layout.tsx\<close> gives to the theme provider (line 63). Mounting runs the
  effect of the observer.
\<close>

definition initial :: page where
  "initial = \<lparr>theme = ''system'', renderedTheme = ''system'', isMobileMenuOpen = False,
     renderedMenuOpen = False, showWhatsApp = False,
     animatedStats = \<lparr>projects = 0, clients = 0, years = 0, hours = 0\<rparr>,
     timers = [], observed = [], scrolledTo = []\<rparr>"

definition mount :: "document \<Rightarrow> page" where
  "mount doc = (case observerSetup doc initial of Inr s \<Rightarrow> s | Inl e \<Rightarrow> initial)"


section \<open>Events\<close>

text \<open>
  The runtime delivers one event at a time. The observer's callback receives entries of
  observed elements only, and only a timer that exists and was not cleared fires. An
  exception that escapes a handler ends that handler. A render is an event of its own:
  the library renders after the handler of a click has returned, so that two clicks have a
  render between them, while two calls of a handler from one render have none.
\<close>

datatype event =
    Scroll number
  | ToggleDarkMode
  | ToggleMobileMenu
  | Render
  | ScrollToSection string
  | Intersection "entry list"
  | TimerFired nat

fun step :: "document \<Rightarrow> event \<Rightarrow> page \<Rightarrow> page" where
  "step doc (Scroll scrollY) s = handleScroll scrollY s"
| "step doc ToggleDarkMode s = toggleDarkMode s"
| "step doc ToggleMobileMenu s = toggleMobileMenu s"
| "step doc Render s = render s"
| "step doc (ScrollToSection sectionId) s =
     (case scrollToSection doc sectionId s of Inr s' \<Rightarrow> s' | Inl e \<Rightarrow> s)"
| "step doc (Intersection entries) s =
     observerCallback (filter (\<lambda>e. entryTarget e \<in> set (observed s)) entries) s"
| "step doc (TimerFired i) s =
     (if i < length (timers s) \<and> \<not> cleared (timers s ! i) then intervalCallback i s else s)"

definition exec :: "document \<Rightarrow> event list \<Rightarrow> page \<Rightarrow> page" where
  "exec doc evs s = fold (step doc) evs s"

text \<open>The states after each event of a sequence.\<close>

fun trace :: "document \<Rightarrow> event list \<Rightarrow> page \<Rightarrow> page list" where
  "trace doc [] s = []"
| "trace doc (e # es) s = step doc e s # trace doc es (step doc e s)"

text \<open>The animation state machine, read off the timers.\<close>

datatype phase = Idle | Running | Done

definition phaseOf :: "page \<Rightarrow> phase" where
  "phaseOf s = (if timers s = [] then Idle
                else if list_all cleared (timers s) then Done else Running)"

text \<open>An event in which the 50 percent visibility condition fires: it carries an
  intersecting entry.\<close>

fun entersView :: "event \<Rightarrow> bool" where
  "entersView (Intersection entries) = list_ex isIntersecting entries"
| "entersView e = False"

text \<open>The number of intersecting entries that a sequence delivers for observed elements.\<close>

fun triggers :: "string list \<Rightarrow> event list \<Rightarrow> nat" where
  "triggers obs [] = 0"
| "triggers obs (Intersection entries # es) =
     length (filter (\<lambda>e. entryTarget e \<in> set obs \<and> isIntersecting e) entries) + triggers obs es"
| "triggers obs (e # es) = triggers obs es"

text \<open>
  One timer on its own: the values its successive callbacks display, until it is cleared
  or \<open>n\<close> callbacks have run, and the timer afterwards.
\<close>

fun runTimer :: "nat \<Rightarrow> timer \<Rightarrow> int list \<times> timer" where
  "runTimer 0 t = ([], t)"
| "runTimer (Suc n) t =
     (if cleared t then ([], t)
      else let t' = tick t; (vs, tf) = runTimer n t'
           in (Math_floor (current t') # vs, tf))"


text \<open>
  The first run on the page: the timer of a key and the value displayed for it after \<open>n\<close>
  firings of that timer, and the ids of the four timers of the first call of
  \<^verbatim>\<open>animateStats\<close>.
\<close>

definition timerAfter :: "nat \<Rightarrow> stat_key \<Rightarrow> timer" where
  "timerAfter n k = snd (runTimer n (newTimer k))"

definition displayedAfter :: "nat \<Rightarrow> stat_key \<Rightarrow> int" where
  "displayedAfter n k = last (getStat k (animatedStats initial) # fst (runTimer n (newTimer k)))"

fun timerId :: "stat_key \<Rightarrow> nat" where
  "timerId Projects = 0"
| "timerId Clients = 1"
| "timerId Years = 2"
| "timerId Hours = 3"

text \<open>A page in its first run, timer \<open>timerId k\<close> having fired \<open>c k\<close> times.\<close>

definition firstRun :: "(stat_key \<Rightarrow> nat) \<Rightarrow> page \<Rightarrow> bool" where
  "firstRun c s =
     (timers s = map (\<lambda>k. timerAfter (c k) k) keys
      \<and> animatedStats s = \<lparr>projects = displayedAfter (c Projects) Projects,
           clients = displayedAfter (c Clients) Clients,
           years = displayedAfter (c Years) Years,
           hours = displayedAfter (c Hours) Hours\<rparr>)"

text \<open>
  \<open>n\<close> periods of the interval: the four timers have the same delay, so each fires once
  per period, in the order of their creation.
\<close>

definition rounds :: "nat \<Rightarrow> event list" where
  "rounds n = concat (replicate n [TimerFired 0, TimerFired 1, TimerFired 2, TimerFired 3])"

text \<open>
  Modelled from the spec: the theme provider component that \<^verbatim>\<open>layout.tsx\<close> configures
  (\<^verbatim>\<open>defaultTheme="system"\<close>, \<^verbatim>\<open>enableSystem\<close>) is not among the sources. The
  preference "system" is resolved to the appearance of the system; an explicit choice is
  shown as it is.
\<close>

definition resolvedTheme :: "string \<Rightarrow> page \<Rightarrow> string" where
  "resolvedTheme systemTheme s = (if theme s = ''system'' then systemTheme else theme s)"


section \<open>Scroll-driven visibility\<close>

lemma showWhatsApp_handleScroll: "showWhatsApp (handleScroll y s) = (300 < y)"
  by (simp add: handleScroll_def)

lemma trace_scrolls:
  "map showWhatsApp (trace doc (map Scroll ys) s) = map (\<lambda>y. 300 < y) ys"
  by (induction ys arbitrary: s) (simp_all add: showWhatsApp_handleScroll)

text \<open>
  C5: after a scroll event the visibility of the WhatsApp button is exactly
  \<open>scrollY > 300\<close>, whatever the state before (so whatever the earlier offsets); along any
  sequence of scroll events the visibilities are those of the offsets one by one, and the
  offsets 0, 150, 320, 280 give false, false, true, false.
\<close>

theorem scroll_visibility:
  "showWhatsApp (step doc (Scroll y) s) = (300 < y)
   \<and> map showWhatsApp (trace doc (map Scroll ys) s) = map (\<lambda>y. 300 < y) ys
   \<and> map showWhatsApp (trace doc (map Scroll [0, 150, 320, 280]) s) = [False, False, True, False]"
proof -
  have "map showWhatsApp (trace doc (map Scroll [0, 150, 320, 280]) s)
        = map (\<lambda>y. 300 < y) [0, 150, 320, 280 :: number]"
    by (rule trace_scrolls)
  then have "map showWhatsApp (trace doc (map Scroll [0, 150, 320, 280]) s)
        = [False, False, True, False]"
    by simp
  then show ?thesis
    using trace_scrolls [of doc ys s] by (simp add: showWhatsApp_handleScroll)
qed

text \<open>
  C9 fails on the code in its last part: the offset is a number, not a count of whole
  pixels, and at the offset 300.5, which is below 301, the button is visible.
\<close>

theorem scroll_threshold_counterexample:
  "showWhatsApp (handleScroll (601 / 2) initial) = True \<and> (601 / 2 :: number) < 301"
  by (simp add: showWhatsApp_handleScroll)

text \<open>
  C9, as the code has it: the threshold is strict. At the offset 300 the button is not
  visible, and it is visible exactly at the offsets greater than 300, fractional ones
  included; among the whole-pixel offsets these are the offsets from 301 on.
\<close>

theorem scroll_threshold_strict:
  "showWhatsApp (handleScroll 300 s) = False
   \<and> showWhatsApp (handleScroll 301 s) = True
   \<and> showWhatsApp (handleScroll (601 / 2) s) = True
   \<and> (\<forall>n :: int. showWhatsApp (handleScroll (of_int n) s) = (301 \<le> n))
   \<and> (\<forall>y. showWhatsApp (handleScroll y s) = (300 < y))"
proof -
  have "(300 < (of_int n :: rat)) = (301 \<le> n)" for n :: int
  proof -
    have "(300 < (of_int n :: rat)) = ((of_int 300 :: rat) < of_int n)" by simp
    also have "\<dots> = (300 < n)" by (simp only: of_int_less_iff)
    finally show ?thesis by auto
  qed
  then show ?thesis by (simp add: showWhatsApp_handleScroll)
qed


section \<open>The theme toggle\<close>

lemma theme_toggleDarkMode:
  "theme (toggleDarkMode s) = (if renderedTheme s = ''dark'' then ''light'' else ''dark'')"
  "renderedTheme (toggleDarkMode s) = renderedTheme s"
  by (simp_all add: toggleDarkMode_def)

lemma render_fields:
  "theme (render s) = theme s"
  "renderedTheme (render s) = theme s"
  by (simp_all add: render_def)

text \<open>
  C6 fails on the code: two calls of the handler of one render, with the theme light, both
  set dark, so that the themes are light, dark, dark.
\<close>

theorem toggle_twice_counterexample:
  "map theme (trace pageDocument [ToggleDarkMode, ToggleDarkMode]
       (initial\<lparr>theme := ''light'', renderedTheme := ''light''\<rparr>))
     = [''dark'', ''dark'']"
  by (simp add: toggleDarkMode_def initial_def)

text \<open>
  C6, as the code has it: from the theme light, with a render between the two calls (as
  there is between two clicks), the first toggle gives dark and the second gives light
  again; on the two themes light and dark, toggle, render, toggle, render gives the
  rendered state back. Two calls without a render between them set the same theme twice.
\<close>

theorem toggle_twice:
  "map theme (trace doc [ToggleDarkMode, Render, ToggleDarkMode]
       (s\<lparr>theme := ''light'', renderedTheme := ''light''\<rparr>))
     = [''dark'', ''dark'', ''light'']
   \<and> map theme (trace doc [ToggleDarkMode, Render, ToggleDarkMode]
       (s\<lparr>theme := ''dark'', renderedTheme := ''dark''\<rparr>))
     = [''light'', ''light'', ''dark'']
   \<and> exec doc [ToggleDarkMode, Render, ToggleDarkMode, Render] (render (s\<lparr>theme := ''light''\<rparr>))
     = render (s\<lparr>theme := ''light''\<rparr>)
   \<and> exec doc [ToggleDarkMode, Render, ToggleDarkMode, Render] (render (s\<lparr>theme := ''dark''\<rparr>))
     = render (s\<lparr>theme := ''dark''\<rparr>)
   \<and> theme (toggleDarkMode (toggleDarkMode s)) = theme (toggleDarkMode s)"
  by (simp add: toggleDarkMode_def render_def exec_def)


lemma theme_mount: "theme (mount doc) = ''system''" "renderedTheme (mount doc) = ''system''"
  by (simp_all add: mount_def observerSetup_def observe_def getElementById_def initial_def)

text \<open>
  C8 fails on the code in its last part: with a dark system, the first click on the toggle
  leaves the resolved appearance dark, and yet the click is visible, the icon of the
  button changing from the moon to the sun.
\<close>

theorem first_toggle_counterexample:
  "resolvedTheme ''dark'' (mount pageDocument) = ''dark''
   \<and> resolvedTheme ''dark'' (exec pageDocument [ToggleDarkMode, Render] (mount pageDocument)) = ''dark''
   \<and> themeIcon (mount pageDocument) = Moon
   \<and> themeIcon (exec pageDocument [ToggleDarkMode, Render] (mount pageDocument)) = Sun"
  by (simp add: theme_mount theme_toggleDarkMode render_fields resolvedTheme_def themeIcon_def
      exec_def)

text \<open>
  C8, as the code has it: whatever the theme of the render is, if it is not the string
  "dark" then the toggle sets the theme to "dark". The theme after mounting is "system",
  so the first toggle selects dark; when the system's appearance is dark, the appearance
  before and after that click is dark, and the icon of the button changes from the moon to
  the sun.
\<close>

theorem toggle_from_other_theme:
  "(renderedTheme s \<noteq> ''dark'' \<longrightarrow> theme (toggleDarkMode s) = ''dark'')
   \<and> (theme s \<noteq> ''dark'' \<longrightarrow> theme (toggleDarkMode (render s)) = ''dark'')
   \<and> theme (mount doc) = ''system''
   \<and> renderedTheme (mount doc) = ''system''
   \<and> theme (toggleDarkMode (mount doc)) = ''dark''
   \<and> resolvedTheme ''dark'' (mount doc) = ''dark''
   \<and> resolvedTheme ''dark'' (exec doc [ToggleDarkMode, Render] (mount doc)) = ''dark''
   \<and> themeIcon (mount doc) = Moon
   \<and> themeIcon (exec doc [ToggleDarkMode, Render] (mount doc)) = Sun"
  by (simp add: theme_toggleDarkMode theme_mount render_fields resolvedTheme_def themeIcon_def
      exec_def)

theorem toggle_from_other_theme_witness:
  "renderedTheme (mount pageDocument) \<noteq> ''dark''
   \<and> theme (toggleDarkMode (mount pageDocument)) = ''dark''
   \<and> theme (initial\<lparr>theme := ''light''\<rparr>) \<noteq> ''dark''
   \<and> theme (toggleDarkMode (render (initial\<lparr>theme := ''light''\<rparr>))) = ''dark''"
  using toggle_from_other_theme [of "mount pageDocument" pageDocument]
    toggle_from_other_theme [of "initial\<lparr>theme := ''light''\<rparr>" pageDocument]
  by (simp add: theme_mount)


section \<open>Navigation\<close>

lemma scrollToSection_eq:
  "scrollToSection doc sectionId s =
     Inr (if sectionId \<in> set doc
          then s\<lparr>scrolledTo := scrolledTo s @ [sectionId], isMobileMenuOpen := False\<rparr>
          else s\<lparr>isMobileMenuOpen := False\<rparr>)"
  by (simp add: scrollToSection_def optionalCall_def getElementById_def scrollIntoView_def)

text \<open>
  C4: for every string, \<^verbatim>\<open>scrollToSection\<close> returns normally and leaves the mobile menu
  closed. When no element has that id, closing the menu is the only change of the state;
  otherwise the element is scrolled into view as well.
\<close>

theorem scrollToSection_total:
  "\<exists>s'. scrollToSection doc sectionId s = Inr s'
        \<and> isMobileMenuOpen s' = False
        \<and> (sectionId \<notin> set doc \<longrightarrow> s' = s\<lparr>isMobileMenuOpen := False\<rparr>)
        \<and> (sectionId \<in> set doc \<longrightarrow>
             s' = s\<lparr>scrolledTo := scrolledTo s @ [sectionId], isMobileMenuOpen := False\<rparr>)"
  by (simp add: scrollToSection_eq)

theorem scrollToSection_total_witness:
  "''pricing'' \<notin> set pageDocument
   \<and> ''about'' \<in> set pageDocument
   \<and> scrollToSection pageDocument ''pricing'' (initial\<lparr>isMobileMenuOpen := True\<rparr>) = Inr initial
   \<and> scrollToSection pageDocument ''about'' (initial\<lparr>isMobileMenuOpen := True\<rparr>)
       = Inr (initial\<lparr>scrolledTo := [''about'']\<rparr>)"
  using scrollToSection_total [of pageDocument "''pricing''" "initial\<lparr>isMobileMenuOpen := True\<rparr>"]
    scrollToSection_total [of pageDocument "''about''" "initial\<lparr>isMobileMenuOpen := True\<rparr>"]
  by (auto simp add: pageDocument_def initial_def)


section \<open>The intersection observer\<close>

lemma timers_animateStats: "timers (animateStats s) = timers s @ map newTimer keys"
  by (simp add: animateStats_def keys_def setInterval_def)

lemma animateStats_other:
  "animatedStats (animateStats s) = animatedStats s" "observed (animateStats s) = observed s"
  by (simp_all add: animateStats_def keys_def setInterval_def)

lemma observerCallback_Nil: "observerCallback [] s = s"
  by (simp add: observerCallback_def)

lemma observerCallback_Cons:
  "observerCallback (e # es) s =
     observerCallback es (if isIntersecting e then animateStats s else s)"
  by (simp add: observerCallback_def)

lemma observerCallback_quiet:
  "\<not> list_ex isIntersecting es \<Longrightarrow> observerCallback es s = s"
  by (induction es arbitrary: s) (simp_all add: observerCallback_Nil observerCallback_Cons)

lemma observerCallback_fields:
  "observed (observerCallback es s) = observed s"
  "animatedStats (observerCallback es s) = animatedStats s"
  "length (timers (observerCallback es s)) = length (timers s) + 4 * length (filter isIntersecting es)"
  by (induction es arbitrary: s)
    (simp_all add: observerCallback_Nil observerCallback_Cons animateStats_other
      timers_animateStats keys_def)

lemma intervalCallback_fields:
  "observed (intervalCallback i s) = observed s"
  "length (timers (intervalCallback i s)) = length (timers s)"
  by (simp_all add: intervalCallback_def Let_def)

lemma step_observed: "observed (step doc e s) = observed s"
  by (cases e)
    (simp_all add: handleScroll_def toggleDarkMode_def toggleMobileMenu_def render_def
      scrollToSection_eq
      observerCallback_fields intervalCallback_fields)

lemma filter_filter_conj: "filter P (filter Q xs) = filter (\<lambda>x. Q x \<and> P x) xs"
  by (induction xs) simp_all

lemma step_timers_length:
  "length (timers (step doc e s)) = length (timers s) + 4 * triggers (observed s) [e]"
  by (cases e)
    (simp_all add: handleScroll_def toggleDarkMode_def toggleMobileMenu_def render_def
      scrollToSection_eq
      observerCallback_fields intervalCallback_fields filter_filter_conj)

lemma triggers_Cons: "triggers obs (e # es) = triggers obs [e] + triggers obs es"
  by (cases e) simp_all

lemma exec_Nil: "exec doc [] s = s"
  by (simp add: exec_def)

lemma exec_Cons: "exec doc (e # es) s = exec doc es (step doc e s)"
  by (simp add: exec_def)

text \<open>
  C1, as the code has it: \<^verbatim>\<open>animateStats\<close> is started once for every intersecting entry
  that the observer delivers for the observed section. After any sequence of events the
  number of interval timers created is four times the number of those entries, and the
  observer keeps observing.
\<close>

theorem runs_started:
  "length (timers (exec doc evs s)) = length (timers s) + 4 * triggers (observed s) evs
   \<and> observed (exec doc evs s) = observed s"
proof (induction evs arbitrary: s)
  case Nil
  show ?case by (simp add: exec_Nil)
next
  case (Cons e evs)
  show ?case
    using Cons [of "step doc e s"] triggers_Cons [of "observed s" e evs]
    by (simp add: exec_Cons step_timers_length step_observed)
qed


text \<open>
  Events without an intersecting entry leave a page without timers as it is, counters
  included.
\<close>

lemma handler_fields:
  "animatedStats (handleScroll y s) = animatedStats s"
  "timers (handleScroll y s) = timers s"
  "animatedStats (toggleDarkMode s) = animatedStats s"
  "timers (toggleDarkMode s) = timers s"
  "animatedStats (toggleMobileMenu s) = animatedStats s"
  "timers (toggleMobileMenu s) = timers s"
  "animatedStats (render s) = animatedStats s"
  "timers (render s) = timers s"
  by (simp_all add: handleScroll_def toggleDarkMode_def toggleMobileMenu_def render_def)

lemma step_quiet:
  assumes "timers s = []" and "\<not> entersView e"
  shows "timers (step doc e s) = [] \<and> animatedStats (step doc e s) = animatedStats s"
proof (cases e)
  case (Intersection es)
  with assms(2) have "\<not> list_ex isIntersecting (filter (\<lambda>e. entryTarget e \<in> set (observed s)) es)"
    by (auto simp add: list_ex_iff)
  then show ?thesis
    using assms(1) Intersection by (simp add: observerCallback_quiet)
qed (use assms in \<open>simp_all add: handler_fields scrollToSection_eq\<close>)

lemma exec_quiet:
  "timers s = [] \<Longrightarrow> \<not> list_ex entersView evs \<Longrightarrow>
   timers (exec doc evs s) = [] \<and> animatedStats (exec doc evs s) = animatedStats s"
proof (induction evs arbitrary: s)
  case Nil
  show ?case using Nil by (simp add: exec_Nil)
next
  case (Cons e evs)
  from Cons.prems have e: "\<not> entersView e" and es: "\<not> list_ex entersView evs" by simp_all
  from step_quiet [OF Cons.prems(1) e, of doc] Cons.IH [of "step doc e s", OF _ es]
  show ?case by (simp add: exec_Cons)
qed

lemma mount_fields:
  "timers (mount doc) = []"
  "animatedStats (mount doc) = \<lparr>projects = 0, clients = 0, years = 0, hours = 0\<rparr>"
  "observed (mount doc) = (if ''stats-section'' \<in> set doc then [''stats-section''] else [])"
  by (simp_all add: mount_def observerSetup_def observe_def getElementById_def initial_def)

text \<open>
  C7: if no intersection event with an intersecting entry occurs, the animation stays
  Idle and the four counters stay 0, whatever else happens; and a scroll, a theme toggle,
  a menu toggle or a navigation never changes the counters, in any state.
\<close>

theorem idle_without_intersection:
  assumes "\<not> list_ex entersView evs"
  shows "phaseOf (exec doc evs (mount doc)) = Idle
    \<and> animatedStats (exec doc evs (mount doc)) = \<lparr>projects = 0, clients = 0, years = 0, hours = 0\<rparr>
    \<and> animatedStats (step doc (Scroll y) s) = animatedStats s
    \<and> animatedStats (step doc ToggleDarkMode s) = animatedStats s
    \<and> animatedStats (step doc ToggleMobileMenu s) = animatedStats s
    \<and> animatedStats (step doc (ScrollToSection sectionId) s) = animatedStats s"
proof -
  have "timers (mount doc) = []" by (simp add: mount_fields)
  from exec_quiet [OF this assms, of doc]
  have "timers (exec doc evs (mount doc)) = []"
    and "animatedStats (exec doc evs (mount doc)) = animatedStats (mount doc)"
    by simp_all
  then show ?thesis
    by (simp add: phaseOf_def mount_fields handler_fields scrollToSection_eq)
qed

theorem idle_without_intersection_witness:
  "\<not> list_ex entersView [Scroll 320, ToggleDarkMode, ToggleMobileMenu, ScrollToSection ''about'',
       Intersection [Entry ''stats-section'' False], TimerFired 0, Scroll 0]
   \<and> phaseOf (exec pageDocument [Scroll 320, ToggleDarkMode, ToggleMobileMenu,
       ScrollToSection ''about'', Intersection [Entry ''stats-section'' False], TimerFired 0,
       Scroll 0] (mount pageDocument)) = Idle
   \<and> animatedStats (exec pageDocument [Scroll 320, ToggleDarkMode, ToggleMobileMenu,
       ScrollToSection ''about'', Intersection [Entry ''stats-section'' False], TimerFired 0,
       Scroll 0] (mount pageDocument)) = \<lparr>projects = 0, clients = 0, years = 0, hours = 0\<rparr>"
  using idle_without_intersection [of "[Scroll 320, ToggleDarkMode, ToggleMobileMenu,
       ScrollToSection ''about'', Intersection [Entry ''stats-section'' False], TimerFired 0,
       Scroll 0]" pageDocument 0 initial "''about''"]
  by simp

lemma step_unobserved:
  assumes "timers s = []" and "observed s = []"
  shows "timers (step doc e s) = [] \<and> animatedStats (step doc e s) = animatedStats s"
  using assms by (cases e) (simp_all add: handler_fields scrollToSection_eq observerCallback_Nil)

lemma exec_unobserved:
  "timers s = [] \<Longrightarrow> observed s = [] \<Longrightarrow>
   timers (exec doc evs s) = [] \<and> animatedStats (exec doc evs s) = animatedStats s"
proof (induction evs arbitrary: s)
  case Nil
  show ?case using Nil by (simp add: exec_Nil)
next
  case (Cons e evs)
  from step_unobserved [OF Cons.prems, of doc e] step_observed [of doc e s] Cons.prems(2)
    Cons.IH [of "step doc e s"]
  show ?case by (simp add: exec_Cons)
qed

text \<open>
  C10: if the document has no element with the id "stats-section", the effect that sets
  up the observer returns normally and observes nothing; then, whatever events follow, the
  animation stays Idle and the four counters stay 0.
\<close>

theorem no_stats_section:
  assumes "''stats-section'' \<notin> set doc"
  shows "observerSetup doc initial = Inr initial
    \<and> observed (mount doc) = []
    \<and> phaseOf (exec doc evs (mount doc)) = Idle
    \<and> animatedStats (exec doc evs (mount doc)) = \<lparr>projects = 0, clients = 0, years = 0, hours = 0\<rparr>"
proof -
  have a: "observerSetup doc initial = Inr initial"
    using assms by (simp add: observerSetup_def getElementById_def)
  have b: "observed (mount doc) = []"
    using assms by (simp add: mount_fields)
  have "timers (mount doc) = []" by (simp add: mount_fields)
  from exec_unobserved [OF this b, of doc evs] a b
  show ?thesis by (simp add: phaseOf_def mount_fields)
qed

theorem no_stats_section_witness:
  "''stats-section'' \<notin> set [''hero'', ''services'', ''about'', ''contact'']
   \<and> observerSetup [''hero'', ''services'', ''about'', ''contact''] initial = Inr initial
   \<and> phaseOf (exec [''hero'', ''services'', ''about'', ''contact'']
        [Intersection [Entry ''stats-section'' True], TimerFired 0, Scroll 400]
        (mount [''hero'', ''services'', ''about'', ''contact''])) = Idle
   \<and> animatedStats (exec [''hero'', ''services'', ''about'', ''contact'']
        [Intersection [Entry ''stats-section'' True], TimerFired 0, Scroll 400]
        (mount [''hero'', ''services'', ''about'', ''contact'']))
       = \<lparr>projects = 0, clients = 0, years = 0, hours = 0\<rparr>"
  using no_stats_section [of "[''hero'', ''services'', ''about'', ''contact'']"
      "[Intersection [Entry ''stats-section'' True], TimerFired 0, Scroll 400]"]
  by simp

section \<open>Evaluating the rounding\<close>

text \<open>
  The exponent of a number is fixed by the binade it lies in, so that \<open>fl\<close> of a number
  known to lie between two consecutive powers of two is one rounding to an integer.
\<close>

lemma bitlen_eqI:
  fixes m :: int
  assumes "2 ^ n \<le> m" and "m < 2 ^ Suc n"
  shows "bitlen m = int n + 1"
proof -
  have "(0::int) < 2 ^ n" by simp
  with assms(1) have pos: "0 < m" by linarith
  from bitlen_bounds[OF pos]
  have lo: "2 ^ nat (bitlen m - 1) \<le> m" and hi: "m < 2 ^ nat (bitlen m)" by auto
  have "(2::int) ^ n < 2 ^ nat (bitlen m)" using assms(1) hi by linarith
  then have a: "n < nat (bitlen m)" by simp
  have "(2::int) ^ nat (bitlen m - 1) < 2 ^ Suc n" using lo assms(2) by linarith
  then have b: "nat (bitlen m - 1) < Suc n"
    by (simp only: power_strict_increasing_iff one_less_numeral_iff semiring_norm)
  from a b show ?thesis by linarith
qed

lemma ilog2_eqI:
  assumes lo: "2 powi k \<le> x" and hi: "x < 2 powi (k + 1)"
  shows "ilog2 x = k"
proof (cases "1 \<le> x")
  case True
  have gt: "(1::rat) < 2 powi (k + 1)" using True hi by linarith
  have k0: "0 \<le> k"
  proof (rule ccontr)
    assume "\<not> 0 \<le> k"
    then have "k + 1 \<le> 0" by simp
    from power_int_increasing[OF this, of "2::rat"] gt show False by simp
  qed
  define n where "n = nat k"
  have kn: "k = int n" using k0 by (simp add: n_def)
  have "rat_of_int (2 ^ n) \<le> x" using lo by (simp add: kn)
  then have a: "2 ^ n \<le> \<lfloor>x\<rfloor>" by (simp only: le_floor_iff)
  have "x < rat_of_int (2 ^ Suc n)" using hi by (simp add: kn power_int_add)
  then have b: "\<lfloor>x\<rfloor> < 2 ^ Suc n" by (simp only: floor_less_iff)
  from bitlen_eqI[OF a b] True show ?thesis by (simp add: ilog2_def kn)
next
  case False
  have "(0::rat) < 2 powi k" by simp
  with lo have x0: "0 < x" by linarith
  have lt: "2 powi k < (1::rat)" using False lo by linarith
  have k0: "k < 0"
  proof (rule ccontr)
    assume "\<not> k < 0"
    then have "0 \<le> k" by simp
    from power_int_increasing[OF this, of "2::rat"] lt show False by simp
  qed
  define j where "j = nat (- k - 1)"
  have kj: "k = - int (Suc j)" using k0 by (simp add: j_def)
  have "(2::rat) powi k = 1 / 2 ^ Suc j"
    unfolding kj by (simp only: power_int_minus power_int_of_nat inverse_eq_divide)
  with lo have lo': "1 / 2 ^ Suc j \<le> x" by simp
  have "k + 1 = - int j" by (simp add: kj)
  then have "(2::rat) powi (k + 1) = 1 / 2 ^ j"
    by (simp only: power_int_minus power_int_of_nat inverse_eq_divide)
  with hi have hi': "x < 1 / 2 ^ j" by simp
  have "1 / x \<le> rat_of_int (2 ^ Suc j)" using lo' x0 by (simp add: field_simps)
  then have a: "\<lceil>1 / x\<rceil> \<le> 2 ^ Suc j" by (simp only: ceiling_le_iff)
  have "rat_of_int (2 ^ j) < 1 / x" using hi' x0 by (simp add: field_simps)
  then have b: "2 ^ j < \<lceil>1 / x\<rceil>" by (simp only: less_ceiling_iff)
  have "bitlen (\<lceil>1 / x\<rceil> - 1) = int j + 1"
    using a b by (intro bitlen_eqI) linarith+
  with False show ?thesis by (simp add: ilog2_def kj)
qed

lemma fl_binade:
  assumes "2 powi k \<le> x" and "x < 2 powi (k + 1)" and "- 1022 \<le> k"
  shows "fl x = of_int (round_ties_even (x / 2 powi (k - 52))) * 2 powi (k - 52)"
proof -
  have "(0::rat) < 2 powi k" by simp
  with assms(1) have pos: "0 < x" by linarith
  have "ilog2 \<bar>x\<bar> = k" using ilog2_eqI[OF assms(1,2)] pos by simp
  moreover have "max (k - 52) (- 1074) = k - 52" using assms(3) by simp
  ultimately show ?thesis using pos by (simp only: fl_def Let_def) simp
qed

lemmas fl_binades = fl_binade[of "-4"] fl_binade[of "-3"] fl_binade[of "-2"] fl_binade[of "-1"] fl_binade[of "0"]
   fl_binade[of 1] fl_binade[of 2] fl_binade[of 3] fl_binade[of 4] fl_binade[of 5] fl_binade[of 6] fl_binade[of 7]

lemma floor_frac_rat: "\<lfloor>numeral p / numeral q :: rat\<rfloor> = numeral p div numeral q"
  by (metis floor_divide_of_int_eq of_int_numeral)

lemma floor_one_frac_rat: "\<lfloor>1 / numeral q :: rat\<rfloor> = 1 div numeral q"
  by (metis floor_divide_of_int_eq of_int_numeral of_int_1)

lemmas number_eval = js_add_def js_div_def Math_floor_def fl_binades round_ties_even_def
  floor_frac_rat floor_one_frac_rat Let_def steps_def


text \<open>The rounding on two well-known cases: the sum of 0.1 and 0.2 is not 0.3.\<close>

lemma fl_examples:
  "fl (1 / 10) = 3602879701896397 / 36028797018963968"
  "js_add (fl (1 / 10)) (fl (2 / 10)) = 1351079888211149 / 4503599627370496"
  "fl (3 / 10) = 5404319552844595 / 18014398509481984"
  by (simp_all add: number_eval)

section \<open>One run of the counter animation\<close>

text \<open>
  The four timers of one call of \<^verbatim>\<open>animateStats\<close>, each run on its own until it
  clears itself: the values displayed and the timer at the end.
\<close>

lemma run_projects:
  "runTimer 100 (newTimer Projects) =
     ([2, 5, 7, 10, 12, 15, 17, 20, 22, 25, 27, 30, 32, 35, 37, 40, 42, 45, 47, 50, 52, 55,
       57, 60, 62, 65, 67, 70, 72, 75, 77, 80, 82, 85, 87, 90, 92, 95, 97, 100, 102, 105,
       107, 110, 112, 115, 117, 120, 122, 125, 127, 130, 132, 135, 137, 140, 142, 145, 147,
       150],
      \<lparr>key = Projects, target = 150, increment = 5 / 2, current = 150, cleared = True\<rparr>)"
  by (simp add: newTimer_def tick_def number_eval eval_nat_numeral)

lemma run_clients:
  "runTimer 100 (newTimer Clients) =
     ([1, 3, 4, 6, 8, 9, 11, 13, 14, 16, 18, 19, 21, 23, 24, 26, 28, 29, 31, 32, 34, 36, 37,
       39, 41, 42, 44, 46, 47, 49, 51, 52, 54, 56, 57, 59, 61, 62, 64, 65, 67, 69, 70, 72,
       74, 75, 77, 79, 80, 82, 84, 85, 87, 89, 90, 92, 94, 95, 97, 99],
      \<lparr>key = Clients, target = 99, increment = 3715469692580659 / 2251799813685248,
         current = 99, cleared = True\<rparr>)"
  by (simp add: newTimer_def tick_def number_eval eval_nat_numeral)

lemma run_years:
  "runTimer 100 (newTimer Years) =
     ([0, 0, 0, 0, 0, 0, 0, 0, 0, 0, 0, 1, 1, 1, 1, 1, 1, 1, 1, 1, 1, 1, 1, 1, 2, 2, 2, 2,
       2, 2, 2, 2, 2, 2, 2, 3, 3, 3, 3, 3, 3, 3, 3, 3, 3, 3, 3, 4, 4, 4, 4, 4, 4, 4, 4, 4,
       4, 4, 4, 4, 5],
      \<lparr>key = Years, target = 5, increment = 6004799503160661 / 72057594037927936,
         current = 5, cleared = True\<rparr>)"
  by (simp add: newTimer_def tick_def number_eval eval_nat_numeral)

lemma run_hours:
  "runTimer 100 (newTimer Hours) =
     ([0, 0, 1, 1, 2, 2, 2, 3, 3, 3, 4, 4, 5, 5, 6, 6, 6, 7, 7, 8, 8, 8, 9, 9, 10, 10, 10,
       11, 11, 12, 12, 12, 13, 13, 14, 14, 14, 15, 15, 16, 16, 16, 17, 17, 18, 18, 18, 19,
       19, 19, 20, 20, 21, 21, 21, 22, 22, 23, 23, 23, 24],
      \<lparr>key = Hours, target = 24, increment = 3602879701896397 / 9007199254740992,
         current = 24, cleared = True\<rparr>)"
  by (simp add: newTimer_def tick_def number_eval eval_nat_numeral)


lemma run60_projects: "runTimer 60 (newTimer Projects) = runTimer 100 (newTimer Projects)"
  by (simp only: run_projects) (simp add: newTimer_def tick_def number_eval eval_nat_numeral)

lemma run60_clients: "runTimer 60 (newTimer Clients) = runTimer 100 (newTimer Clients)"
  by (simp only: run_clients) (simp add: newTimer_def tick_def number_eval eval_nat_numeral)

lemma run60_years:
  "runTimer 60 (newTimer Years) =
     ([0, 0, 0, 0, 0, 0, 0, 0, 0, 0, 0, 1, 1, 1, 1, 1, 1, 1, 1, 1, 1, 1, 1, 1, 2, 2, 2, 2,
       2, 2, 2, 2, 2, 2, 2, 3, 3, 3, 3, 3, 3, 3, 3, 3, 3, 3, 3, 4, 4, 4, 4, 4, 4, 4, 4, 4,
       4, 4, 4, 4],
      \<lparr>key = Years, target = 5, increment = 6004799503160661 / 72057594037927936,
         current = 5629499534213119 / 1125899906842624, cleared = False\<rparr>)"
  by (simp add: newTimer_def tick_def number_eval eval_nat_numeral)

lemma run60_hours:
  "runTimer 60 (newTimer Hours) =
     ([0, 0, 1, 1, 2, 2, 2, 3, 3, 3, 4, 4, 5, 5, 6, 6, 6, 7, 7, 8, 8, 8, 9, 9, 10, 10, 10,
       11, 11, 12, 12, 12, 13, 13, 14, 14, 14, 15, 15, 16, 16, 16, 17, 17, 18, 18, 18, 19,
       19, 19, 20, 20, 21, 21, 21, 22, 22, 23, 23, 23],
      \<lparr>key = Hours, target = 24, increment = 3602879701896397 / 9007199254740992,
         current = 3377699720527869 / 140737488355328, cleared = False\<rparr>)"
  by (simp add: newTimer_def tick_def number_eval eval_nat_numeral)






section \<open>The first run on the page\<close>

text \<open>
  After the first trigger, and as long as no second one comes, the page is determined by
  how often each timer has fired: the order in which the timers fire and the other events
  do not matter.
\<close>

lemma runTimer_snoc:
  "runTimer (Suc n) t =
     (case runTimer n t of
        (vs, tf) \<Rightarrow> if cleared tf then (vs, tf)
                    else (vs @ [Math_floor (current (tick tf))], tick tf))"
proof (induction n arbitrary: t)
  case 0
  show ?case by (simp add: Let_def)
next
  case (Suc n)
  show ?case
  proof (cases "cleared t")
    case True
    then show ?thesis by simp
  next
    case False
    obtain vs tf where r: "runTimer n (tick t) = (vs, tf)" by (cases "runTimer n (tick t)")
    have "runTimer (Suc (Suc n)) t =
        (case runTimer (Suc n) (tick t) of (ws, tg) \<Rightarrow> (Math_floor (current (tick t)) # ws, tg))"
      using False by (subst runTimer.simps(2)) (simp add: Let_def del: runTimer.simps)
    also have "runTimer (Suc n) (tick t) =
        (if cleared tf then (vs, tf) else (vs @ [Math_floor (current (tick tf))], tick tf))"
      using Suc [of "tick t"] r by simp
    finally show ?thesis using False r by (simp add: Let_def)
  qed
qed

lemma timerAfter_0: "timerAfter 0 k = newTimer k"
  by (simp add: timerAfter_def)

lemma displayedAfter_0: "displayedAfter 0 k = 0"
  by (cases k) (simp_all add: displayedAfter_def initial_def)

lemma timerAfter_Suc:
  "timerAfter (Suc n) k =
     (if cleared (timerAfter n k) then timerAfter n k else tick (timerAfter n k))"
  unfolding timerAfter_def runTimer_snoc [of n "newTimer k"]
  by (cases "runTimer n (newTimer k)") simp

lemma displayedAfter_Suc:
  "displayedAfter (Suc n) k =
     (if cleared (timerAfter n k) then displayedAfter n k
      else Math_floor (current (tick (timerAfter n k))))"
  unfolding timerAfter_def displayedAfter_def runTimer_snoc [of n "newTimer k"]
  by (cases "runTimer n (newTimer k)") simp

lemma key_tick: "key (tick t) = key t"
  by (simp add: tick_def Let_def)

lemma key_timerAfter: "key (timerAfter n k) = k"
  by (induction n) (simp_all add: timerAfter_0 timerAfter_Suc key_tick newTimer_def)

lemma firstRun_TimerFired:
  assumes "firstRun c s"
  shows "firstRun (\<lambda>k. if timerId k = i then Suc (c k) else c k) (step doc (TimerFired i) s)"
proof -
  have t: "timers s = [timerAfter (c Projects) Projects, timerAfter (c Clients) Clients,
      timerAfter (c Years) Years, timerAfter (c Hours) Hours]"
    using assms by (simp add: firstRun_def keys_def)
  have st: "animatedStats s = \<lparr>projects = displayedAfter (c Projects) Projects,
           clients = displayedAfter (c Clients) Clients,
           years = displayedAfter (c Years) Years,
           hours = displayedAfter (c Hours) Hours\<rparr>"
    using assms by (simp add: firstRun_def)
  consider "i = 0" | "i = 1" | "i = 2" | "i = 3" | "4 \<le> i" by linarith
  then show ?thesis
  proof cases
    case 1
    then show ?thesis
      by (simp add: firstRun_def keys_def t st intervalCallback_def Let_def timerAfter_Suc
          displayedAfter_Suc key_tick key_timerAfter)
  next
    case 2
    then show ?thesis
      by (simp add: firstRun_def keys_def t st intervalCallback_def Let_def timerAfter_Suc
          displayedAfter_Suc key_tick key_timerAfter)
  next
    case 3
    then show ?thesis
      by (simp add: firstRun_def keys_def t st intervalCallback_def Let_def timerAfter_Suc
          displayedAfter_Suc key_tick key_timerAfter)
  next
    case 4
    then show ?thesis
      by (simp add: firstRun_def keys_def t st intervalCallback_def Let_def timerAfter_Suc
          displayedAfter_Suc key_tick key_timerAfter)
  next
    case 5
    then show ?thesis
      by (simp add: firstRun_def keys_def t st)
  qed
qed


lemma firstRun_other:
  assumes "firstRun c s" and "\<not> entersView e" and "\<And>i. e \<noteq> TimerFired i"
  shows "firstRun c (step doc e s)"
proof (cases e)
  case (Intersection es)
  with assms(2) have "\<not> list_ex isIntersecting (filter (\<lambda>e. entryTarget e \<in> set (observed s)) es)"
    by (auto simp add: list_ex_iff)
  then show ?thesis
    using assms(1) Intersection by (simp add: observerCallback_quiet)
next
  case (TimerFired i)
  with assms(3) [of i] show ?thesis by blast
qed (use assms(1) in \<open>simp_all add: firstRun_def handler_fields scrollToSection_eq\<close>)

lemma firstRun_step:
  assumes "firstRun c s" and "\<not> entersView e"
  shows "firstRun (\<lambda>k. c k + count_list [e] (TimerFired (timerId k))) (step doc e s)"
proof (cases "\<exists>i. e = TimerFired i")
  case True
  then obtain i where e: "e = TimerFired i" by blast
  have "(\<lambda>k. c k + count_list [e] (TimerFired (timerId k)))
      = (\<lambda>k. if timerId k = i then Suc (c k) else c k)"
    by (auto simp add: e)
  then show ?thesis
    using firstRun_TimerFired [OF assms(1), of i doc] by (simp only: e)
next
  case False
  then have "(\<lambda>k. c k + count_list [e] (TimerFired (timerId k))) = c"
    by auto
  then show ?thesis
    using firstRun_other [OF assms, of doc] False by simp
qed

lemma firstRun_exec:
  "firstRun c s \<Longrightarrow> \<not> list_ex entersView evs \<Longrightarrow>
   firstRun (\<lambda>k. c k + count_list evs (TimerFired (timerId k))) (exec doc evs s)"
proof (induction evs arbitrary: c s)
  case Nil
  then show ?case by (simp add: exec_Nil)
next
  case (Cons e evs)
  from Cons.prems have e: "\<not> entersView e" and es: "\<not> list_ex entersView evs" by simp_all
  have "(\<lambda>k. c k + count_list [e] (TimerFired (timerId k)) + count_list evs (TimerFired (timerId k)))
      = (\<lambda>k. c k + count_list (e # evs) (TimerFired (timerId k)))"
    by auto
  with Cons.IH [OF firstRun_step [OF Cons.prems(1) e, of doc] es]
  show ?case by (simp only: exec_Cons)
qed

lemma firstRun_trigger:
  assumes "''stats-section'' \<in> set doc"
  shows "firstRun (\<lambda>k. 0) (step doc (Intersection [Entry ''stats-section'' True]) (mount doc))"
  using assms
  by (simp add: firstRun_def mount_fields observerCallback_Cons observerCallback_Nil
      timers_animateStats animateStats_other timerAfter_0 displayedAfter_0)







lemma count_list_rounds:
  "i < 4 \<Longrightarrow> count_list (rounds n) (TimerFired i) = n"
proof (induction n)
  case 0
  show ?case by (simp add: rounds_def)
next
  case (Suc n)
  then have "count_list (rounds n) (TimerFired i) = n" by simp
  moreover have "i = 0 \<or> i = 1 \<or> i = 2 \<or> i = 3" using Suc.prems by linarith
  ultimately show ?case by (auto simp add: rounds_def)
qed

lemma quiet_rounds: "\<not> list_ex entersView (rounds n)"
  by (induction n) (simp_all add: rounds_def)

lemma firstRun_rounds:
  assumes "''stats-section'' \<in> set doc"
  shows "firstRun (\<lambda>k. n) (exec doc (Intersection [Entry ''stats-section'' True] # rounds n) (mount doc))"
proof -
  have "(\<lambda>k. 0 + count_list (rounds n) (TimerFired (timerId k))) = (\<lambda>k. n)"
  proof
    fix k show "0 + count_list (rounds n) (TimerFired (timerId k)) = n"
      by (cases k) (simp_all add: count_list_rounds)
  qed
  with firstRun_exec [where doc = doc, OF firstRun_trigger [OF assms] quiet_rounds [of n]]
  show ?thesis by (simp only: exec_Cons)
qed


section \<open>The counters\<close>

lemmas page_eval = exec_def mount_def observerSetup_def observe_def getElementById_def
  pageDocument_def initial_def observerCallback_def animateStats_def keys_def setInterval_def
  intervalCallback_def newTimer_def tick_def number_eval

text \<open>
  C1 fails on the code: when the section enters the view, leaves it and enters it again,
  two runs are started, whose eight timers are all active at once; and when the second
  entry arrives while the first run is going on, the projects counter falls from 5 back
  to 2.
\<close>

theorem retrigger_counterexample:
  "map cleared (timers (exec pageDocument
       [Intersection [Entry ''stats-section'' True], Intersection [Entry ''stats-section'' False],
        Intersection [Entry ''stats-section'' True]]
       (mount pageDocument)))
     = [False, False, False, False, False, False, False, False]
   \<and> phaseOf (exec pageDocument [Intersection [Entry ''stats-section'' True]]
       (mount pageDocument)) = Running
   \<and> projects (animatedStats (exec pageDocument
       [Intersection [Entry ''stats-section'' True], TimerFired 0, TimerFired 0]
       (mount pageDocument))) = 5
   \<and> projects (animatedStats (exec pageDocument
       [Intersection [Entry ''stats-section'' True], TimerFired 0, TimerFired 0,
        Intersection [Entry ''stats-section'' False], Intersection [Entry ''stats-section'' True],
        TimerFired 4]
       (mount pageDocument))) = 2"
  by (simp add: page_eval phaseOf_def)



text \<open>
  C3: no displayed value exceeds its target, and the timers of projects and clients clear
  at tick 60 with 150 and 99. The timers of years and hours do not: sixty rounded additions
  of the rounded increment leave \<^verbatim>\<open>current\<close> at \<open>5 - 1 / 2 ^ 50\<close> and at
  \<open>24 - 3 / 2 ^ 47\<close>, below the target, so that tick 60 displays 4 and 23 and both timers
  clear at tick 61. On the page, sixty periods after the trigger the counters show 150, 99,
  4 and 23 and the animation is still running.
\<close>

theorem sixtieth_tick:
  "map (\<lambda>k. last (fst (runTimer 60 (newTimer k)))) keys = [150, 99, 4, 23]
   \<and> map (\<lambda>k. cleared (snd (runTimer 60 (newTimer k)))) keys = [True, True, False, False]
   \<and> current (snd (runTimer 60 (newTimer Years))) = 5 - 1 / 2 ^ 50
   \<and> current (snd (runTimer 60 (newTimer Hours))) = 24 - 3 / 2 ^ 47
   \<and> map (\<lambda>k. length (fst (runTimer 100 (newTimer k)))) keys = [60, 60, 61, 61]
   \<and> map (\<lambda>k. cleared (snd (runTimer 100 (newTimer k)))) keys = [True, True, True, True]
   \<and> map (\<lambda>k. list_all (\<lambda>v. v \<le> Math_floor (targets k)) (fst (runTimer 100 (newTimer k)))) keys
       = [True, True, True, True]
   \<and> animatedStats (exec pageDocument
        (Intersection [Entry ''stats-section'' True] # rounds 60) (mount pageDocument))
       = \<lparr>projects = 150, clients = 99, years = 4, hours = 23\<rparr>
   \<and> phaseOf (exec pageDocument
        (Intersection [Entry ''stats-section'' True] # rounds 60) (mount pageDocument))
       = Running"
proof -
  have a: "map (\<lambda>k. last (fst (runTimer 60 (newTimer k)))) keys = [150, 99, 4, 23]"
    by (simp add: keys_def run60_projects run60_clients run60_years run60_hours
        run_projects run_clients)
  have b: "map (\<lambda>k. cleared (snd (runTimer 60 (newTimer k)))) keys = [True, True, False, False]"
    by (simp add: keys_def run60_projects run60_clients run60_years run60_hours
        run_projects run_clients)
  have c: "current (snd (runTimer 60 (newTimer Years))) = 5 - 1 / 2 ^ 50"
    by (simp add: run60_years)
  have d: "current (snd (runTimer 60 (newTimer Hours))) = 24 - 3 / 2 ^ 47"
    by (simp add: run60_hours)
  have e: "map (\<lambda>k. length (fst (runTimer 100 (newTimer k)))) keys = [60, 60, 61, 61]"
    by (simp add: keys_def run_projects run_clients run_years run_hours)
  have f: "map (\<lambda>k. cleared (snd (runTimer 100 (newTimer k)))) keys = [True, True, True, True]"
    by (simp add: keys_def run_projects run_clients run_years run_hours)
  have g: "map (\<lambda>k. list_all (\<lambda>v. v \<le> Math_floor (targets k)) (fst (runTimer 100 (newTimer k)))) keys
       = [True, True, True, True]"
    by (simp add: keys_def run_projects run_clients run_years run_hours Math_floor_def)
  have "''stats-section'' \<in> set pageDocument" by (simp add: pageDocument_def)
  from firstRun_rounds [OF this, of 60]
  have fr: "firstRun (\<lambda>k. 60) (exec pageDocument
        (Intersection [Entry ''stats-section'' True] # rounds 60) (mount pageDocument))" .
  have h: "animatedStats (exec pageDocument
        (Intersection [Entry ''stats-section'' True] # rounds 60) (mount pageDocument))
       = \<lparr>projects = 150, clients = 99, years = 4, hours = 23\<rparr>"
    using fr
    by (simp add: firstRun_def displayedAfter_def initial_def run60_projects run60_clients
        run60_years run60_hours run_projects run_clients)
  have i: "phaseOf (exec pageDocument
        (Intersection [Entry ''stats-section'' True] # rounds 60) (mount pageDocument))
       = Running"
    using fr
    by (simp add: firstRun_def phaseOf_def keys_def timerAfter_def run60_projects run60_clients
        run60_years run60_hours run_projects run_clients)
  from a b c d e f g h i show ?thesis by (intro conjI)
qed

end
